theory Spec2Isabelle
  imports Main
begin

section \<open>The user service of a12n-server: users, passwords and TOTP secrets\<close>

text \<open>
  The service (\<^verbatim>\<open>src/unnamed/part_000\<close>) is a thin layer of SQL statements over three
  tables, plus calls into two libraries (bcrypt and otplib). The embedding keeps that
  shape:
  \<^item> the store is a record of three row lists; a table's list order is the order in which
    a \<^verbatim>\<open>SELECT\<close> without \<^verbatim>\<open>ORDER BY\<close> returns its rows, and an \<^verbatim>\<open>INSERT\<close> appends;
  \<^item> every \<^verbatim>\<open>async\<close> function that writes takes the store and returns the new one;
  \<^item> a \<^verbatim>\<open>throw\<close> (or a rejected promise) is the \<open>Inl\<close> of a sum;
  \<^item> the libraries are not part of the repository: \<^verbatim>\<open>bcrypt.hash\<close>,
    \<^verbatim>\<open>bcrypt.compare\<close> and \<^verbatim>\<open>otplib.authenticator.check\<close> are parameters of the
    functions that call them, and each of them may throw; what the spec says of the
    token check is a definition of its own, \<open>authenticator_check\<close>;
  \<^item> the schema is not among the sources either. What the statements need of it is kept
    as data of the store (the \<^verbatim>\<open>AUTO_INCREMENT\<close> counter of \<^verbatim>\<open>users.id\<close>, the default of
    \<^verbatim>\<open>users.active\<close>) or as a parameter (the collation that decides
    \<^verbatim>\<open>identity = ?\<close>). The store has no constraint the statements do not show, and a
    statement never fails.
\<close>

subsection \<open>Errors\<close>

text \<open>
  \<open>NotFound\<close> is the error of \<^verbatim>\<open>@curveball/http-errors\<close> the service throws itself;
  \<open>LibraryError\<close> stands for whatever a library call throws, which \<^verbatim>\<open>await\<close>
  passes on to the caller.
\<close>

datatype error = NotFound string | LibraryError string

subsection \<open>Data model\<close>

text \<open>A JavaScript \<^verbatim>\<open>Date\<close>: milliseconds since the epoch.\<close>

type_synonym Date = int

text \<open>A node \<^verbatim>\<open>Buffer\<close>: a list of bytes.\<close>

type_synonym Buffer = string

text \<open>
  The table \<^verbatim>\<open>users\<close>: the five columns of \<open>fieldNames\<close> and the column \<^verbatim>\<open>active\<close>
  the queries filter on. \<^verbatim>\<open>created\<close> holds what \<^verbatim>\<open>UNIX_TIMESTAMP()\<close> gave: seconds
  since the epoch. Ids, types and the flag are integers, as the columns hold them.
\<close>

record users_row =
  row_id :: int
  row_identity :: string
  row_nickname :: string
  row_created :: int
  row_type :: int
  row_active :: int

record user_passwords_row =
  pw_user_id :: int
  pw_password :: Buffer

record user_totp_row =
  totp_user_id :: int
  totp_secret :: string

record database =
  users :: "users_row list"
  users_auto_increment :: int
  users_active_default :: int
  user_passwords :: "user_passwords_row list"
  user_totp :: "user_totp_row list"

text \<open>\<^verbatim>\<open>type UserRecord\<close>: a row as the \<^verbatim>\<open>SELECT\<close> of \<open>fieldNames\<close> returns it.\<close>

record UserRecord =
  rec_id :: int
  rec_identity :: string
  rec_nickname :: string
  rec_created :: int
  rec_type :: int

text \<open>\<^verbatim>\<open>type PasswordRow\<close>: a row of \<^verbatim>\<open>SELECT password FROM user_passwords\<close>.\<close>

record PasswordRow =
  password :: Buffer

text \<open>A row of \<^verbatim>\<open>SELECT secret FROM user_totp\<close>.\<close>

record TotpRow =
  secret :: string

text \<open>
  \<^verbatim>\<open>User\<close>, with the fields \<open>recordToModel\<close> builds. TypeScript's types are erased at
  run time, and the object \<open>save\<close> builds for a new user has the properties of its
  input and an \<^verbatim>\<open>id\<close>: whether it has a \<^verbatim>\<open>created\<close> depends on the input, so the
  property is optional here (\<open>None\<close>: the object has no such property).
\<close>

record User =
  u_id :: int
  u_identity :: string
  u_nickname :: string
  u_created :: "Date option"
  u_type :: int

text \<open>
  Modelled from the spec: the declaration of \<^verbatim>\<open>NewUser\<close> (\<^verbatim>\<open>./types\<close>) is not among the
  sources. The spec's data model: a \<^verbatim>\<open>NewUser\<close> carries \<^verbatim>\<open>identity\<close>, \<^verbatim>\<open>nickname\<close> and
  \<^verbatim>\<open>type\<close>, but no \<^verbatim>\<open>id\<close> and no \<^verbatim>\<open>created\<close>: that is \<open>n_created = None\<close>.
  \<open>save\<close> copies every property of its input into its result, so the record lets
  an input carry a \<^verbatim>\<open>created\<close> all the same, and the model says what becomes of it.
\<close>

record NewUser =
  n_identity :: string
  n_nickname :: string
  n_created :: "Date option"
  n_type :: int

text \<open>
  The argument of \<open>save\<close>, \<^verbatim>\<open>User | NewUser\<close>. The source tells the two apart by the
  presence of \<^verbatim>\<open>id\<close>; here the constructor says which of the two shapes the object has.
\<close>

datatype UserOrNewUser = AUser User | ANewUser NewUser

subsection \<open>Printing a number\<close>

text \<open>
  \<^verbatim>\<open>'...' + id + '...'\<close> prints the number in decimal (JavaScript does so for every
  integer below \<open>10\<^sup>2\<^sup>1\<close> in absolute value).
\<close>

fun digits :: "nat \<Rightarrow> string" where
  "digits n =
     (if n < 10 then [''0123456789'' ! n]
      else digits (n div 10) @ [''0123456789'' ! (n mod 10)])"

declare digits.simps [simp del]

definition number_toString :: "int \<Rightarrow> string" where
  "number_toString i = (if i < 0 then CHR ''-'' # digits (nat (- i)) else digits (nat i))"

subsection \<open>The statements\<close>

text \<open>\<open>fieldNames\<close>: the columns every \<^verbatim>\<open>SELECT\<close> on \<^verbatim>\<open>users\<close> asks for.\<close>

definition fieldNames :: "users_row \<Rightarrow> UserRecord" where
  "fieldNames r =
     \<lparr>rec_id = row_id r, rec_identity = row_identity r, rec_nickname = row_nickname r,
      rec_created = row_created r, rec_type = row_type r\<rparr>"

text \<open>\<^verbatim>\<open>SELECT id, identity, nickname, created, type FROM users WHERE active = 1\<close>\<close>

definition select_users_active :: "database \<Rightarrow> UserRecord list" where
  "select_users_active db = map fieldNames (filter (\<lambda>r. row_active r = 1) (users db))"

text \<open>\<^verbatim>\<open>... WHERE active = 1 AND id = ?\<close>\<close>

definition select_users_by_id :: "database \<Rightarrow> int \<Rightarrow> UserRecord list" where
  "select_users_by_id db i =
     map fieldNames (filter (\<lambda>r. row_active r = 1 \<and> row_id r = i) (users db))"

text \<open>
  \<^verbatim>\<open>... WHERE active = 1 AND identity = ?\<close>. The comparison is the one of the column's
  collation, \<open>collate\<close> (for many collations of MySQL it ignores case).
\<close>

definition select_users_by_identity ::
    "(string \<Rightarrow> string \<Rightarrow> bool) \<Rightarrow> database \<Rightarrow> string \<Rightarrow> UserRecord list" where
  "select_users_by_identity collate db ident =
     map fieldNames
       (filter (\<lambda>r. row_active r = 1 \<and> collate (row_identity r) ident) (users db))"

text \<open>
  \<^verbatim>\<open>INSERT INTO users SET ?, created = UNIX_TIMESTAMP()\<close> with the three columns of
  \<open>newUserRecord\<close> (identity, nickname, type): the row gets the next
  \<^verbatim>\<open>AUTO_INCREMENT\<close> value as its id, the server's clock \<open>now\<close> (in seconds) as
  \<^verbatim>\<open>created\<close> and the column default as \<^verbatim>\<open>active\<close>. The result is the new store and
  \<^verbatim>\<open>insertId\<close>.
\<close>

definition insert_users ::
    "int \<Rightarrow> database \<Rightarrow> string \<Rightarrow> string \<Rightarrow> int \<Rightarrow> database \<times> int" where
  "insert_users now db ident nick ty =
     (let insertId = users_auto_increment db in
      (db\<lparr>users := users db @
             [\<lparr>row_id = insertId, row_identity = ident, row_nickname = nick,
               row_created = now, row_type = ty,
               row_active = users_active_default db\<rparr>],
          users_auto_increment := insertId + 1\<rparr>,
       insertId))"

text \<open>
  \<^verbatim>\<open>UPDATE users SET ? WHERE id = ?\<close> with the two columns of \<open>updateUserRecord\<close>:
  every row with that id, active or not.
\<close>

definition update_users :: "database \<Rightarrow> string \<Rightarrow> string \<Rightarrow> int \<Rightarrow> database" where
  "update_users db ident nick i =
     db\<lparr>users := map (\<lambda>r. if row_id r = i
                           then r\<lparr>row_identity := ident, row_nickname := nick\<rparr>
                           else r) (users db)\<rparr>"

text \<open>\<^verbatim>\<open>INSERT INTO user_passwords SET user_id = ?, password = ?\<close>\<close>

definition insert_user_passwords :: "database \<Rightarrow> int \<Rightarrow> Buffer \<Rightarrow> database" where
  "insert_user_passwords db i h =
     db\<lparr>user_passwords := user_passwords db @ [\<lparr>pw_user_id = i, pw_password = h\<rparr>]\<rparr>"

text \<open>\<^verbatim>\<open>SELECT password FROM user_passwords WHERE user_id = ?\<close>\<close>

definition select_user_passwords :: "database \<Rightarrow> int \<Rightarrow> PasswordRow list" where
  "select_user_passwords db i =
     map (\<lambda>r. \<lparr>password = pw_password r\<rparr>)
       (filter (\<lambda>r. pw_user_id r = i) (user_passwords db))"

text \<open>\<^verbatim>\<open>SELECT secret FROM user_totp WHERE user_id = ?\<close>\<close>

definition select_user_totp :: "database \<Rightarrow> int \<Rightarrow> TotpRow list" where
  "select_user_totp db i =
     map (\<lambda>r. \<lparr>secret = totp_secret r\<rparr>) (filter (\<lambda>r. totp_user_id r = i) (user_totp db))"

subsection \<open>The service\<close>

text \<open>
  \<^verbatim>\<open>new Date(user.created * 1000)\<close>: seconds to milliseconds. (A \<^verbatim>\<open>Date\<close> holds up to
  \<open>8.64 \<sqdot> 10\<^sup>1\<^sup>5\<close> milliseconds either side of the epoch, far beyond the seconds
  \<^verbatim>\<open>UNIX_TIMESTAMP()\<close> gives; the limit is not modelled.)
\<close>

definition recordToModel :: "UserRecord \<Rightarrow> User" where
  "recordToModel user =
     \<lparr>u_id = rec_id user, u_identity = rec_identity user, u_nickname = rec_nickname user,
      u_created = Some (rec_created user * 1000), u_type = rec_type user\<rparr>"

text \<open>
  \<open>isExistingUser\<close>, the type guard \<^verbatim>\<open>user is User\<close>: \<^verbatim>\<open>id !== undefined\<close> holds of
  the objects with an id.
\<close>

fun isExistingUser :: "UserOrNewUser \<Rightarrow> bool" where
  "isExistingUser (AUser user) = True"
| "isExistingUser (ANewUser user) = False"

text \<open>
  The loop of \<open>findAll\<close>; \<open>pushed\<close> is the array \<^verbatim>\<open>users\<close> the models are pushed on.
\<close>

fun findAll_loop :: "UserRecord list \<Rightarrow> User list \<Rightarrow> User list" where
  "findAll_loop [] pushed = pushed"
| "findAll_loop (user # rest) pushed = findAll_loop rest (pushed @ [recordToModel user])"

definition findAll :: "database \<Rightarrow> User list" where
  "findAll db = findAll_loop (select_users_active db) []"

definition findById :: "database \<Rightarrow> int \<Rightarrow> error + User" where
  "findById db i =
     (let result = select_users_by_id db i in
      if length result \<noteq> 1
      then Inl (NotFound (''User with id: '' @ number_toString i @ '' not found''))
      else Inr (recordToModel (result ! 0)))"

definition findByIdentity ::
    "(string \<Rightarrow> string \<Rightarrow> bool) \<Rightarrow> database \<Rightarrow> string \<Rightarrow> error + User" where
  "findByIdentity collate db ident =
     (let result = select_users_by_identity collate db ident in
      if length result \<noteq> 1
      then Inl (NotFound (''User with identity: '' @ ident @ '' not found''))
      else Inr (recordToModel (result ! 0)))"

text \<open>
  \<open>save\<close>, its two branches first. For a new user the statement gets
  \<open>newUserRecord\<close>, the input's identity, nickname and type, and the result is
  \<^verbatim>\<open>{id: result[0].insertId, ...user}\<close>: the input's properties and the id, nothing
  read back from the store. \<open>now\<close> is the server's clock when the statement runs.
\<close>

definition save_new :: "int \<Rightarrow> database \<Rightarrow> NewUser \<Rightarrow> database \<times> User" where
  "save_new now db user =
     (let (db', insertId) =
            insert_users now db (n_identity user) (n_nickname user) (n_type user)
      in (db', \<lparr>u_id = insertId, u_identity = n_identity user,
                u_nickname = n_nickname user, u_created = n_created user,
                u_type = n_type user\<rparr>))"

definition save_existing :: "database \<Rightarrow> User \<Rightarrow> database \<times> User" where
  "save_existing db user =
     (update_users db (u_identity user) (u_nickname user) (u_id user), user)"

text \<open>
  The test \<^verbatim>\<open>!isExistingUser(user)\<close> narrows the union; each \<open>case\<close> below hands the
  narrowed object to the branch the test selects.
\<close>

definition save :: "int \<Rightarrow> database \<Rightarrow> UserOrNewUser \<Rightarrow> database \<times> User" where
  "save now db user =
     (if \<not> isExistingUser user
      then (case user of ANewUser n \<Rightarrow> save_new now db n | AUser u \<Rightarrow> save_existing db u)
      else (case user of AUser u \<Rightarrow> save_existing db u | ANewUser n \<Rightarrow> save_new now db n))"

text \<open>
  \<open>createPassword\<close>: \<open>hash\<close> is \<^verbatim>\<open>bcrypt.hash\<close> as it answers this call (it picks a
  salt of its own); its second argument is the cost.
\<close>

definition createPassword ::
    "(string \<Rightarrow> nat \<Rightarrow> error + string) \<Rightarrow> database \<Rightarrow> User \<Rightarrow> string \<Rightarrow> error + database" where
  "createPassword hash db user pass =
     (case hash pass 12 of
        Inl e \<Rightarrow> Inl e
      | Inr h \<Rightarrow> Inr (insert_user_passwords db (u_id user) h))"

text \<open>
  \<^verbatim>\<open>hash.toString('utf-8')\<close>. A string is kept as its UTF-8 bytes here, so decoding the
  bytes the store holds gives them back (bcrypt's output is ASCII).
\<close>

definition toString_utf8 :: "Buffer \<Rightarrow> string" where
  "toString_utf8 b = b"

text \<open>
  The loop of \<open>validatePassword\<close> over \<open>hashes\<close>; \<open>compare\<close> is
  \<^verbatim>\<open>bcrypt.compare\<close>.
\<close>

fun validatePassword_loop ::
    "(string \<Rightarrow> string \<Rightarrow> error + bool) \<Rightarrow> string \<Rightarrow> Buffer list \<Rightarrow> error + bool" where
  "validatePassword_loop compare pass [] = Inr False"
| "validatePassword_loop compare pass (hash # rest) =
     (case compare pass (toString_utf8 hash) of
        Inl e \<Rightarrow> Inl e
      | Inr b \<Rightarrow> if b then Inr True else validatePassword_loop compare pass rest)"

definition validatePassword ::
    "(string \<Rightarrow> string \<Rightarrow> error + bool) \<Rightarrow> database \<Rightarrow> User \<Rightarrow> string \<Rightarrow> error + bool" where
  "validatePassword compare db user pass =
     (let result = select_user_passwords db (u_id user);
          hashes = map password result
      in validatePassword_loop compare pass hashes)"

text \<open>\<open>validateTotp\<close>; \<open>check\<close> is \<^verbatim>\<open>otplib.authenticator.check\<close>.\<close>

definition validateTotp ::
    "(string \<Rightarrow> string \<Rightarrow> error + bool) \<Rightarrow> database \<Rightarrow> User \<Rightarrow> string \<Rightarrow> error + bool" where
  "validateTotp check db user token =
     (let result = select_user_totp db (u_id user) in
      if length result = 0 then Inr False
      else check token (secret (result ! 0)))"

subsection \<open>The one-time-code library, from the spec\<close>

text \<open>
  Modelled from the spec: otplib, whose \<^verbatim>\<open>authenticator.check\<close> \<open>validateTotp\<close> calls, is
  not among the sources. The spec's glossary: a one-time code is a short numeric code.
  A token has that format when it is a non-empty string of decimal digits; any other
  token is one the library cannot parse.
\<close>

definition numeric_code :: "string \<Rightarrow> bool" where
  "numeric_code token = (token \<noteq> [] \<and> list_all (\<lambda>c. c \<in> set ''0123456789'') token)"

text \<open>
  Modelled from the spec: the comparison of a token with the codes of the time steps
  of the tolerance window, which otplib makes and the sources do not hold. \<open>code\<close>
  derives the code from the shared secret and a time step; the spec's error handling
  lets a failure of the library itself propagate, so the derivation may throw.
\<close>

fun check_window ::
    "(string \<Rightarrow> int \<Rightarrow> error + string) \<Rightarrow> string \<Rightarrow> string \<Rightarrow> int list \<Rightarrow> error + bool" where
  "check_window code token s [] = Inr False"
| "check_window code token s (t # ts) =
     (case code s t of
        Inl e \<Rightarrow> Inl e
      | Inr c \<Rightarrow> if c = token then Inr True else check_window code token s ts)"

text \<open>
  Modelled from the spec: \<^verbatim>\<open>otplib.authenticator.check\<close>, which is not among the sources.
  The spec: the token is validated with the standard time-step one-time-code
  algorithm, accepting the current time step and a small number (\<open>window\<close>) of
  adjacent steps; the result is a boolean, and the check never throws for a token of
  invalid format: a token it cannot parse is treated as non-matching.
\<close>

definition authenticator_check ::
    "(string \<Rightarrow> int \<Rightarrow> error + string) \<Rightarrow> nat \<Rightarrow> int \<Rightarrow> string \<Rightarrow> string \<Rightarrow> error + bool" where
  "authenticator_check code window step token s =
     (if \<not> numeric_code token then Inr False
      else check_window code token s [step - int window .. step + int window])"

subsection \<open>A sample store\<close>

text \<open>
  Four rows of \<^verbatim>\<open>users\<close>: Alice, Bob (inactive) and two active rows that share the id 3
  and an identity. Alice has two passwords and two TOTP rows; the second password row
  and the second TOTP row of user 3 are empty.
\<close>

definition example_db :: database where
  "example_db =
     \<lparr>users =
        [\<lparr>row_id = 1, row_identity = ''alice@example.com'', row_nickname = ''Alice'',
          row_created = 1600000000, row_type = 1, row_active = 1\<rparr>,
         \<lparr>row_id = 2, row_identity = ''bob@example.com'', row_nickname = ''Bob'',
          row_created = 1600000100, row_type = 1, row_active = 0\<rparr>,
         \<lparr>row_id = 3, row_identity = ''carol@example.com'', row_nickname = ''Carol'',
          row_created = 1600000200, row_type = 2, row_active = 1\<rparr>,
         \<lparr>row_id = 3, row_identity = ''carol@example.com'', row_nickname = ''Caz'',
          row_created = 1600000300, row_type = 1, row_active = 1\<rparr>],
      users_auto_increment = 4,
      users_active_default = 1,
      user_passwords =
        [\<lparr>pw_user_id = 1, pw_password = ''$2b$12$old''\<rparr>,
         \<lparr>pw_user_id = 3, pw_password = ''$2b$12$carol''\<rparr>,
         \<lparr>pw_user_id = 1, pw_password = ''$2b$12$Secr3t''\<rparr>,
         \<lparr>pw_user_id = 3, pw_password = []\<rparr>],
      user_totp =
        [\<lparr>totp_user_id = 3, totp_secret = ''CAROLSECRET''\<rparr>,
         \<lparr>totp_user_id = 1, totp_secret = ''ALICESECRET''\<rparr>,
         \<lparr>totp_user_id = 1, totp_secret = ''OTHERSECRET''\<rparr>,
         \<lparr>totp_user_id = 3, totp_secret = []\<rparr>]\<rparr>"

text \<open>
  A new user, Alice as a caller might hand her back to \<open>save\<close>, and the users of the
  sample store as \<open>recordToModel\<close> gives them.
\<close>

definition dave :: NewUser where
  "dave = \<lparr>n_identity = ''dave@example.com'', n_nickname = ''Dave'', n_created = None,
            n_type = 1\<rparr>"

definition alice_renamed :: User where
  "alice_renamed =
     \<lparr>u_id = 1, u_identity = ''alice@new.com'', u_nickname = ''Alicia'',
      u_created = Some 5, u_type = 9\<rparr>"

definition alice :: User where
  "alice = \<lparr>u_id = 1, u_identity = ''alice@example.com'', u_nickname = ''Alice'',
            u_created = Some 1600000000000, u_type = 1\<rparr>"

definition bob :: User where
  "bob = \<lparr>u_id = 2, u_identity = ''bob@example.com'', u_nickname = ''Bob'',
          u_created = Some 1600000100000, u_type = 1\<rparr>"

definition carol :: User where
  "carol = \<lparr>u_id = 3, u_identity = ''carol@example.com'', u_nickname = ''Carol'',
            u_created = Some 1600000200000, u_type = 2\<rparr>"

text \<open>
  Stand-ins for the libraries, to run the service on the sample store: a hash that
  keeps the plaintext behind a bcrypt-like prefix with the cost, a comparison that
  accepts exactly such a hash of cost 12, a second one that throws on an empty hash,
  and a token check that takes a token that is not a digit string for wrong, throws
  on an empty secret and knows one valid token per secret otherwise.
\<close>

definition example_hash :: "string \<Rightarrow> nat \<Rightarrow> error + string" where
  "example_hash pass cost = Inr (''$2b$'' @ digits cost @ ''$'' @ pass)"

definition example_compare :: "string \<Rightarrow> string \<Rightarrow> error + bool" where
  "example_compare pass h = Inr (h = ''$2b$12$'' @ pass)"

definition example_compare_strict :: "string \<Rightarrow> string \<Rightarrow> error + bool" where
  "example_compare_strict pass h =
     (if h = [] then Inl (LibraryError ''data and hash arguments required'')
      else Inr (h = ''$2b$12$'' @ pass))"

definition example_check :: "string \<Rightarrow> string \<Rightarrow> error + bool" where
  "example_check token s =
     (if token = [] \<or> \<not> list_all (\<lambda>c. c \<in> set ''0123456789'') token then Inr False
      else if s = [] then Inl (LibraryError ''empty secret'')
      else Inr ((s, token) \<in> set [(''ALICESECRET'', ''492039''),
                                   (''OTHERSECRET'', ''771204''),
                                   (''CAROLSECRET'', ''000001'')]))"

text \<open>
  A derivation of codes for the library of the spec: it throws on an empty secret and
  gives Alice's code at time step 56666667. And the sample store with one TOTP row,
  an empty secret for Bob.
\<close>

definition example_code :: "string \<Rightarrow> int \<Rightarrow> error + string" where
  "example_code s t =
     (if s = [] then Inl (LibraryError ''empty secret'')
      else if s = ''ALICESECRET'' \<and> t = 56666667 then Inr ''492039''
      else Inr ''000000'')"

definition bob_empty_secret_db :: database where
  "bob_empty_secret_db = example_db\<lparr>user_totp := [\<lparr>totp_user_id = 2, totp_secret = []\<rparr>]\<rparr>"

subsection \<open>Predicates the properties use\<close>

text \<open>
  The user carries a \<^verbatim>\<open>created\<close> timestamp (milliseconds) at or after the time of the
  call (seconds, as the server's clock gives it).
\<close>

definition created_at_or_after :: "int \<Rightarrow> User \<Rightarrow> bool" where
  "created_at_or_after callTime user =
     (case u_created user of None \<Rightarrow> False | Some t \<Rightarrow> callTime * 1000 \<le> t)"

text \<open>
  What \<^verbatim>\<open>AUTO_INCREMENT\<close> maintains: the counter is above every id in the table.
\<close>

definition auto_increment_above :: "database \<Rightarrow> bool" where
  "auto_increment_above db = (\<forall>r \<in> set (users db). row_id r < users_auto_increment db)"

section \<open>Properties\<close>

subsection \<open>Helper lemmas\<close>

lemma findAll_loop_map: "findAll_loop rs pushed = pushed @ map recordToModel rs"
  by (induction rs arbitrary: pushed) simp_all

lemma findAll_map: "findAll db = map recordToModel (select_users_active db)"
  by (simp add: findAll_def findAll_loop_map)

lemma length_one_singleton: "length xs = Suc 0 \<Longrightarrow> \<exists>x. xs = [x]"
  by (cases xs) simp_all

lemma filter_singleton_holds: "filter P xs = [x] \<Longrightarrow> P x"
proof -
  assume "filter P xs = [x]"
  then have "x \<in> set (filter P xs)" by simp
  then show "P x" by simp
qed

lemma recordToModel_fieldNames:
  "recordToModel (fieldNames r) =
     \<lparr>u_id = row_id r, u_identity = row_identity r, u_nickname = row_nickname r,
      u_created = Some (row_created r * 1000), u_type = row_type r\<rparr>"
  by (simp add: recordToModel_def fieldNames_def)

lemma findById_cases:
  "findById db i =
     (case filter (\<lambda>r. row_active r = 1 \<and> row_id r = i) (users db) of
        [r] \<Rightarrow> Inr (recordToModel (fieldNames r))
      | _ \<Rightarrow> Inl (NotFound (''User with id: '' @ number_toString i @ '' not found'')))"
  by (simp add: findById_def select_users_by_id_def Let_def split: list.splits)

lemma findByIdentity_cases:
  "findByIdentity collate db ident =
     (case filter (\<lambda>r. row_active r = 1 \<and> collate (row_identity r) ident) (users db) of
        [r] \<Rightarrow> Inr (recordToModel (fieldNames r))
      | _ \<Rightarrow> Inl (NotFound (''User with identity: '' @ ident @ '' not found'')))"
  by (simp add: findByIdentity_def select_users_by_identity_def Let_def split: list.splits)

lemma number_toString_1: "number_toString 1 = ''1''"
  by (simp add: number_toString_def digits.simps)

lemma number_toString_2: "number_toString 2 = ''2''"
  by (simp add: number_toString_def digits.simps)

lemma number_toString_3: "number_toString 3 = ''3''"
  by (simp add: number_toString_def digits.simps)

lemma save_ANewUser: "save now db (ANewUser n) = save_new now db n"
  by (simp add: save_def)

lemma save_AUser: "save now db (AUser u) = save_existing db u"
  by (simp add: save_def)

lemma validatePassword_hashes:
  "validatePassword compare db user pass =
     validatePassword_loop compare pass
       (map pw_password (filter (\<lambda>r. pw_user_id r = u_id user) (user_passwords db)))"
  by (simp add: validatePassword_def select_user_passwords_def Let_def comp_def)

lemma loop_first_match:
  "\<forall>x \<in> set pre. compare pass x = Inr False \<Longrightarrow> compare pass h = Inr True \<Longrightarrow>
     validatePassword_loop compare pass (pre @ h # post) = Inr True"
  by (induction pre) (simp_all add: toString_utf8_def)

lemma loop_no_match:
  "\<forall>x \<in> set hs. compare pass x = Inr False \<Longrightarrow>
     validatePassword_loop compare pass hs = Inr False"
  by (induction hs) (simp_all add: toString_utf8_def)

lemma loop_True_first_match:
  "validatePassword_loop compare pass hs = Inr True \<Longrightarrow>
     \<exists>pre h post. hs = pre @ h # post \<and> (\<forall>x \<in> set pre. compare pass x = Inr False) \<and>
       compare pass h = Inr True"
proof (induction hs)
  case Nil
  then show ?case by simp
next
  case (Cons a hs)
  show ?case
  proof (cases "compare pass a")
    case (Inl e)
    with Cons.prems show ?thesis by (simp add: toString_utf8_def)
  next
    case (Inr b)
    show ?thesis
    proof (cases b)
      case True
      with Inr have "a # hs = [] @ a # hs \<and> (\<forall>x \<in> set []. compare pass x = Inr False) \<and>
          compare pass a = Inr True"
        by simp
      then show ?thesis by blast
    next
      case False
      with Inr Cons.prems have "validatePassword_loop compare pass hs = Inr True"
        by (simp add: toString_utf8_def)
      from Cons.IH [OF this] obtain pre h post where
        p: "hs = pre @ h # post" "\<forall>x \<in> set pre. compare pass x = Inr False"
          "compare pass h = Inr True"
        by blast
      with Inr False have "a # hs = (a # pre) @ h # post \<and>
          (\<forall>x \<in> set (a # pre). compare pass x = Inr False) \<and> compare pass h = Inr True"
        by simp
      then show ?thesis by blast
    qed
  qed
qed

lemma loop_False_no_match:
  "validatePassword_loop compare pass hs = Inr False \<Longrightarrow>
     \<forall>x \<in> set hs. compare pass x = Inr False"
  by (induction hs) (auto simp: toString_utf8_def split: sum.splits if_splits)

lemma validatePassword_loop_total:
  "\<forall>h. \<exists>b. compare pass h = Inr b \<Longrightarrow>
     validatePassword_loop compare pass hs = Inr (\<exists>h \<in> set hs. compare pass h = Inr True)"
proof (induction hs)
  case Nil
  then show ?case by simp
next
  case (Cons a hs)
  from Cons.prems obtain b where b: "compare pass a = Inr b" by blast
  with Cons show ?case by (cases b) (simp_all add: toString_utf8_def)
qed

lemma validatePassword_total:
  assumes "\<forall>p h. \<exists>b. compare p h = Inr b"
  shows "validatePassword compare db user pass =
       Inr (\<exists>r \<in> set (user_passwords db).
              pw_user_id r = u_id user \<and> compare pass (pw_password r) = Inr True)"
proof -
  from assms have "\<forall>h. \<exists>b. compare pass h = Inr b" by simp
  then have "validatePassword_loop compare pass hs =
      Inr (\<exists>h \<in> set hs. compare pass h = Inr True)" for hs
    by (rule validatePassword_loop_total)
  then show ?thesis by (auto simp: validatePassword_hashes)
qed

lemma createPassword_succeeds:
  "hash pass 12 = Inr h \<Longrightarrow>
     createPassword hash db user pass = Inr (insert_user_passwords db (u_id user) h)"
  by (simp add: createPassword_def)

lemma digits_12: "digits 12 = ''12''"
  by (simp add: digits.simps)

lemma example_hash_12: "example_hash pass 12 = Inr (''$2b$12$'' @ pass)"
  by (simp add: example_hash_def digits_12)

lemma validateTotp_cases:
  "validateTotp check db user token =
     (case filter (\<lambda>r. totp_user_id r = u_id user) (user_totp db) of
        [] \<Rightarrow> Inr False
      | r # rest \<Rightarrow> check token (totp_secret r))"
  by (simp add: validateTotp_def select_user_totp_def Let_def split: list.splits)

lemma authenticator_check_unparsable:
  "\<not> numeric_code token \<Longrightarrow> authenticator_check code window step token s = Inr False"
  by (simp add: authenticator_check_def)

subsection \<open>Looking a user up\<close>

text \<open>
  Claim C1. \<open>findById\<close> and \<open>findByIdentity\<close> return the one active row that matches
  the key, as a \<open>User\<close>, when exactly one active row matches. When no row or more than
  one row matches they fail, and the failure is the same \<open>NotFound\<close> in both cases: an
  \<open>Inl\<close>, which no result \<open>Inr b\<close> of a verification equals. The rows that match are
  the active rows whose id is the key, respectively whose identity the collation
  \<open>collate\<close> of the column takes for equal to the key.
\<close>

theorem findById_findByIdentity_unique_or_NotFound:
  "(length (filter (\<lambda>r. row_active r = 1 \<and> row_id r = i) (users db)) = 1 \<longrightarrow>
      (\<exists>r. filter (\<lambda>r. row_active r = 1 \<and> row_id r = i) (users db) = [r] \<and>
           findById db i =
             Inr \<lparr>u_id = i, u_identity = row_identity r, u_nickname = row_nickname r,
                  u_created = Some (row_created r * 1000), u_type = row_type r\<rparr>)) \<and>
   (length (filter (\<lambda>r. row_active r = 1 \<and> row_id r = i) (users db)) \<noteq> 1 \<longrightarrow>
      findById db i =
        Inl (NotFound (''User with id: '' @ number_toString i @ '' not found''))) \<and>
   (length (filter (\<lambda>r. row_active r = 1 \<and> collate (row_identity r) ident) (users db)) = 1 \<longrightarrow>
      (\<exists>r. filter (\<lambda>r. row_active r = 1 \<and> collate (row_identity r) ident) (users db) = [r] \<and>
           collate (row_identity r) ident \<and>
           findByIdentity collate db ident =
             Inr \<lparr>u_id = row_id r, u_identity = row_identity r, u_nickname = row_nickname r,
                  u_created = Some (row_created r * 1000), u_type = row_type r\<rparr>)) \<and>
   (length (filter (\<lambda>r. row_active r = 1 \<and> collate (row_identity r) ident) (users db)) \<noteq> 1 \<longrightarrow>
      findByIdentity collate db ident =
        Inl (NotFound (''User with identity: '' @ ident @ '' not found'')))"
proof (intro conjI impI)
  assume "length (filter (\<lambda>r. row_active r = 1 \<and> row_id r = i) (users db)) = 1"
  then obtain r where r: "filter (\<lambda>r. row_active r = 1 \<and> row_id r = i) (users db) = [r]"
    using length_one_singleton by fastforce
  from filter_singleton_holds [OF r] have "row_id r = i" by simp
  with r show "\<exists>r. filter (\<lambda>r. row_active r = 1 \<and> row_id r = i) (users db) = [r] \<and>
           findById db i =
             Inr \<lparr>u_id = i, u_identity = row_identity r, u_nickname = row_nickname r,
                  u_created = Some (row_created r * 1000), u_type = row_type r\<rparr>"
    by (auto simp: findById_cases recordToModel_fieldNames)
next
  assume "length (filter (\<lambda>r. row_active r = 1 \<and> row_id r = i) (users db)) \<noteq> 1"
  then show "findById db i =
        Inl (NotFound (''User with id: '' @ number_toString i @ '' not found''))"
    by (auto simp: findById_cases split: list.splits)
next
  assume "length (filter (\<lambda>r. row_active r = 1 \<and> collate (row_identity r) ident) (users db)) = 1"
  then obtain r where
    r: "filter (\<lambda>r. row_active r = 1 \<and> collate (row_identity r) ident) (users db) = [r]"
    using length_one_singleton by fastforce
  from filter_singleton_holds [OF r] have "collate (row_identity r) ident" by simp
  with r show "\<exists>r. filter (\<lambda>r. row_active r = 1 \<and> collate (row_identity r) ident) (users db) = [r] \<and>
           collate (row_identity r) ident \<and>
           findByIdentity collate db ident =
             Inr \<lparr>u_id = row_id r, u_identity = row_identity r, u_nickname = row_nickname r,
                  u_created = Some (row_created r * 1000), u_type = row_type r\<rparr>"
    by (auto simp: findByIdentity_cases recordToModel_fieldNames)
next
  assume "length (filter (\<lambda>r. row_active r = 1 \<and> collate (row_identity r) ident) (users db)) \<noteq> 1"
  then show "findByIdentity collate db ident =
        Inl (NotFound (''User with identity: '' @ ident @ '' not found''))"
    by (auto simp: findByIdentity_cases split: list.splits)
qed

text \<open>
  In the sample store Alice is found by id and by identity; Bob is inactive (no row
  matches) and the id 3 and Carol's identity match two rows: both fail alike.
\<close>

theorem findById_findByIdentity_unique_or_NotFound_witness:
  "findById example_db 1 =
     Inr \<lparr>u_id = 1, u_identity = ''alice@example.com'', u_nickname = ''Alice'',
          u_created = Some 1600000000000, u_type = 1\<rparr> \<and>
   findById example_db 2 = Inl (NotFound ''User with id: 2 not found'') \<and>
   findById example_db 3 = Inl (NotFound ''User with id: 3 not found'') \<and>
   findByIdentity (=) example_db ''alice@example.com'' =
     Inr \<lparr>u_id = 1, u_identity = ''alice@example.com'', u_nickname = ''Alice'',
          u_created = Some 1600000000000, u_type = 1\<rparr> \<and>
   findByIdentity (=) example_db ''bob@example.com'' =
     Inl (NotFound ''User with identity: bob@example.com not found'') \<and>
   findByIdentity (=) example_db ''carol@example.com'' =
     Inl (NotFound ''User with identity: carol@example.com not found'')"
  using findById_findByIdentity_unique_or_NotFound
      [of 1 example_db "(=)" "''alice@example.com''"]
    findById_findByIdentity_unique_or_NotFound
      [of 2 example_db "(=)" "''bob@example.com''"]
    findById_findByIdentity_unique_or_NotFound
      [of 3 example_db "(=)" "''carol@example.com''"]
  by (simp add: example_db_def number_toString_1 number_toString_2 number_toString_3)

subsection \<open>Saving a user\<close>

text \<open>
  Claim C2, as the spec states it, asks that \<open>save\<close> of a new user return a user with a
  \<^verbatim>\<open>created\<close> timestamp at or after the call time. It does not: the object it returns
  for Dave, saved at second 1700000000, has no \<^verbatim>\<open>created\<close> at all.
\<close>

theorem save_new_user_returns_no_created:
  "\<not> created_at_or_after 1700000000 (snd (save 1700000000 example_db (ANewUser dave)))"
  by (simp add: created_at_or_after_def save_ANewUser save_new_def insert_users_def Let_def
      dave_def)

text \<open>
  Claim C2, amended. For every new user, \<open>save\<close> inserts one row that holds the
  input's identity, nickname and type, the id the store assigns and the server's time
  as \<^verbatim>\<open>created\<close>, and touches nothing else. It returns the input's fields merged with
  that id and nothing read back from the store: the result's \<^verbatim>\<open>created\<close> is the
  input's (none, for a \<^verbatim>\<open>NewUser\<close> as the spec describes it), and the server's time is
  in the stored row only. The id is fresh whenever the store's counter is above the
  ids in use, which the insert maintains.
\<close>

theorem save_new_user_inserts_and_merges_id:
  "save now db (ANewUser n) = (db', u) \<Longrightarrow>
     users db' = users db @
       [\<lparr>row_id = users_auto_increment db, row_identity = n_identity n,
         row_nickname = n_nickname n, row_created = now, row_type = n_type n,
         row_active = users_active_default db\<rparr>] \<and>
     user_passwords db' = user_passwords db \<and> user_totp db' = user_totp db \<and>
     u = \<lparr>u_id = users_auto_increment db, u_identity = n_identity n,
          u_nickname = n_nickname n, u_created = n_created n, u_type = n_type n\<rparr> \<and>
     (auto_increment_above db \<longrightarrow>
        u_id u \<notin> row_id ` set (users db) \<and> auto_increment_above db')"
  by (fastforce simp: save_ANewUser save_new_def insert_users_def Let_def
      auto_increment_above_def)

theorem save_new_user_inserts_and_merges_id_witness:
  "auto_increment_above example_db \<and>
   snd (save 1700000000 example_db (ANewUser dave)) =
     \<lparr>u_id = 4, u_identity = ''dave@example.com'', u_nickname = ''Dave'',
      u_created = None, u_type = 1\<rparr> \<and>
   users (fst (save 1700000000 example_db (ANewUser dave))) = users example_db @
     [\<lparr>row_id = 4, row_identity = ''dave@example.com'', row_nickname = ''Dave'',
       row_created = 1700000000, row_type = 1, row_active = 1\<rparr>] \<and>
   4 \<notin> row_id ` set (users example_db) \<and>
   auto_increment_above (fst (save 1700000000 example_db (ANewUser dave)))"
proof -
  have a: "auto_increment_above example_db"
    by (simp add: auto_increment_above_def example_db_def)
  have s: "save 1700000000 example_db (ANewUser dave) =
      (fst (save 1700000000 example_db (ANewUser dave)),
       snd (save 1700000000 example_db (ANewUser dave)))"
    by simp
  have i: "users_auto_increment example_db = 4" "users_active_default example_db = 1"
    by (simp_all add: example_db_def)
  show ?thesis
    using save_new_user_inserts_and_merges_id [OF s] a i by (auto simp: dave_def)
qed

text \<open>
  Claim C5. For every user with an id, \<open>save\<close> returns its input as it is, whatever the
  store holds (nothing is read back or compared), and the store changes in the
  \<^verbatim>\<open>users\<close> table only: every row keeps its place, its id, \<^verbatim>\<open>created\<close>, \<^verbatim>\<open>type\<close> and
  \<^verbatim>\<open>active\<close>; a row with the user's id gets the input's identity and nickname, and any
  other row is unchanged.
\<close>

theorem save_existing_user_updates_identity_nickname:
  "save now db (AUser user) = (db', u) \<Longrightarrow>
     u = user \<and>
     length (users db') = length (users db) \<and>
     (\<forall>k < length (users db).
        row_id (users db' ! k) = row_id (users db ! k) \<and>
        row_created (users db' ! k) = row_created (users db ! k) \<and>
        row_type (users db' ! k) = row_type (users db ! k) \<and>
        row_active (users db' ! k) = row_active (users db ! k) \<and>
        (if row_id (users db ! k) = u_id user
         then row_identity (users db' ! k) = u_identity user \<and>
              row_nickname (users db' ! k) = u_nickname user
         else users db' ! k = users db ! k)) \<and>
     users_auto_increment db' = users_auto_increment db \<and>
     users_active_default db' = users_active_default db \<and>
     user_passwords db' = user_passwords db \<and> user_totp db' = user_totp db"
  by (auto simp: save_AUser save_existing_def update_users_def)

text \<open>
  Alice saved with a new identity and nickname, and with a \<^verbatim>\<open>created\<close> and a \<^verbatim>\<open>type\<close>
  that differ from the stored ones: the stored row keeps its own.
\<close>

theorem save_existing_user_updates_identity_nickname_witness:
  "snd (save 1700000000 example_db (AUser alice_renamed)) = alice_renamed \<and>
   users (fst (save 1700000000 example_db (AUser alice_renamed))) ! 0 =
     \<lparr>row_id = 1, row_identity = ''alice@new.com'', row_nickname = ''Alicia'',
      row_created = 1600000000, row_type = 1, row_active = 1\<rparr> \<and>
   users (fst (save 1700000000 example_db (AUser alice_renamed))) ! 1 =
     users example_db ! 1"
proof -
  have s: "save 1700000000 example_db (AUser alice_renamed) =
      (fst (save 1700000000 example_db (AUser alice_renamed)),
       snd (save 1700000000 example_db (AUser alice_renamed)))"
    by simp
  have l: "(0::nat) < length (users example_db)" "(1::nat) < length (users example_db)"
    by (simp_all add: example_db_def)
  have e: "users example_db ! 0 =
      \<lparr>row_id = 1, row_identity = ''alice@example.com'', row_nickname = ''Alice'',
          row_created = 1600000000, row_type = 1, row_active = 1\<rparr>"
     "row_id (users example_db ! 1) = 2"
    by (simp_all add: example_db_def)
  from save_existing_user_updates_identity_nickname [OF s] have
    u: "snd (save 1700000000 example_db (AUser alice_renamed)) = alice_renamed" and
    k: "\<And>k. k < length (users example_db) \<Longrightarrow>
        row_id (users (fst (save 1700000000 example_db (AUser alice_renamed))) ! k) =
          row_id (users example_db ! k) \<and>
        row_created (users (fst (save 1700000000 example_db (AUser alice_renamed))) ! k) =
          row_created (users example_db ! k) \<and>
        row_type (users (fst (save 1700000000 example_db (AUser alice_renamed))) ! k) =
          row_type (users example_db ! k) \<and>
        row_active (users (fst (save 1700000000 example_db (AUser alice_renamed))) ! k) =
          row_active (users example_db ! k) \<and>
        (if row_id (users example_db ! k) = u_id alice_renamed
         then row_identity (users (fst (save 1700000000 example_db (AUser alice_renamed))) ! k) =
                u_identity alice_renamed \<and>
              row_nickname (users (fst (save 1700000000 example_db (AUser alice_renamed))) ! k) =
                u_nickname alice_renamed
         else users (fst (save 1700000000 example_db (AUser alice_renamed))) ! k =
                users example_db ! k)"
    by blast+
  from k [OF l(1)] k [OF l(2)] u e show ?thesis
    by (simp add: alice_renamed_def users_row.equality)
qed

subsection \<open>Passwords\<close>

text \<open>
  Claim C3. \<open>validatePassword\<close> runs its loop over the hashes of all rows of
  \<^verbatim>\<open>user_passwords\<close> with the user's id, in store order. It returns false when there is
  no such row; it returns true exactly when some hash matches and every hash before it
  was compared and did not match, whatever stands after the first match (the comparison
  may even throw there: it is never made); and it returns false exactly when every hash
  was compared and none matched.
\<close>

theorem validatePassword_first_match:
  assumes "hashes =
    map pw_password (filter (\<lambda>r. pw_user_id r = u_id user) (user_passwords db))"
  shows "validatePassword compare db user pass = validatePassword_loop compare pass hashes \<and>
    (hashes = [] \<longrightarrow> validatePassword compare db user pass = Inr False) \<and>
    (validatePassword compare db user pass = Inr True \<longleftrightarrow>
       (\<exists>pre h post. hashes = pre @ h # post \<and>
          (\<forall>x \<in> set pre. compare pass x = Inr False) \<and> compare pass h = Inr True)) \<and>
    (validatePassword compare db user pass = Inr False \<longleftrightarrow>
       (\<forall>x \<in> set hashes. compare pass x = Inr False))"
proof -
  have v: "validatePassword compare db user pass = validatePassword_loop compare pass hashes"
    using assms by (simp add: validatePassword_hashes)
  have e: "hashes = [] \<longrightarrow> validatePassword compare db user pass = Inr False"
    using v by simp
  have t: "validatePassword compare db user pass = Inr True \<longleftrightarrow>
       (\<exists>pre h post. hashes = pre @ h # post \<and>
          (\<forall>x \<in> set pre. compare pass x = Inr False) \<and> compare pass h = Inr True)"
    unfolding v using loop_True_first_match loop_first_match by blast
  have f: "validatePassword compare db user pass = Inr False \<longleftrightarrow>
       (\<forall>x \<in> set hashes. compare pass x = Inr False)"
    unfolding v using loop_False_no_match loop_no_match by blast
  from v e t f show ?thesis by blast
qed

text \<open>
  Carol's rows are a hash of \<^verbatim>\<open>carol\<close> and an empty one, on which the strict comparison
  throws: her password is accepted before the empty row is reached, and a wrong one
  reaches it. Alice's second row matches; Bob has no row.
\<close>

theorem validatePassword_first_match_witness:
  "validatePassword example_compare_strict example_db carol ''carol'' = Inr True \<and>
   validatePassword example_compare_strict example_db carol ''wrong'' =
     Inl (LibraryError ''data and hash arguments required'') \<and>
   validatePassword example_compare example_db alice ''Secr3t'' = Inr True \<and>
   validatePassword example_compare example_db alice ''nope'' = Inr False \<and>
   validatePassword example_compare example_db bob ''anything'' = Inr False"
proof -
  have c: "map pw_password (filter (\<lambda>r. pw_user_id r = u_id carol) (user_passwords example_db))
      = [''$2b$12$carol'', []]"
    by (simp add: example_db_def carol_def)
  have a: "map pw_password (filter (\<lambda>r. pw_user_id r = u_id alice) (user_passwords example_db))
      = [''$2b$12$old'', ''$2b$12$Secr3t'']"
    by (simp add: example_db_def alice_def)
  have b: "map pw_password (filter (\<lambda>r. pw_user_id r = u_id bob) (user_passwords example_db))
      = []"
    by (simp add: example_db_def bob_def)
  show ?thesis
    using validatePassword_first_match [OF c [symmetric], of example_compare_strict "''carol''"]
      validatePassword_first_match [OF c [symmetric], of example_compare_strict "''wrong''"]
      validatePassword_first_match [OF a [symmetric], of example_compare "''Secr3t''"]
      validatePassword_first_match [OF a [symmetric], of example_compare "''nope''"]
      validatePassword_first_match [OF b [symmetric], of example_compare "''anything''"]
    by (simp add: example_compare_def example_compare_strict_def toString_utf8_def)
qed

text \<open>
  Claim C6. Whenever \<^verbatim>\<open>bcrypt.hash\<close> returns a hash for the plaintext at cost 12,
  \<open>createPassword\<close> succeeds, and what it has done is to append one row for the user
  whose password column is that hash. Provided \<^verbatim>\<open>bcrypt.compare\<close> accepts the plaintext
  against that hash and does not throw, \<open>validatePassword\<close> then accepts the
  plaintext, and it rejects every plaintext that matches none of the user's stored
  hashes.
\<close>

theorem createPassword_then_validatePassword:
  assumes h: "hash pass 12 = Inr h"
    and m: "compare pass h = Inr True"
    and t: "\<forall>p h. \<exists>b. compare p h = Inr b"
  shows "\<exists>db'. createPassword hash db user pass = Inr db' \<and>
    user_passwords db' =
      user_passwords db @ [\<lparr>pw_user_id = u_id user, pw_password = h\<rparr>] \<and>
    users db' = users db \<and> user_totp db' = user_totp db \<and>
    validatePassword compare db' user pass = Inr True \<and>
    (\<forall>p'. (\<forall>r \<in> set (user_passwords db').
             pw_user_id r = u_id user \<longrightarrow> compare p' (pw_password r) = Inr False) \<longrightarrow>
          validatePassword compare db' user p' = Inr False)"
proof -
  define db' where "db' = insert_user_passwords db (u_id user) h"
  have c: "createPassword hash db user pass = Inr db'"
    unfolding db'_def using h by (rule createPassword_succeeds)
  have r: "user_passwords db' =
      user_passwords db @ [\<lparr>pw_user_id = u_id user, pw_password = h\<rparr>]"
    and o: "users db' = users db" "user_totp db' = user_totp db"
    by (simp_all add: db'_def insert_user_passwords_def)
  have 1: "validatePassword compare db' user pass = Inr True"
    using m by (simp add: validatePassword_total [OF t] r)
  have 2: "\<forall>p'. (\<forall>r \<in> set (user_passwords db').
             pw_user_id r = u_id user \<longrightarrow> compare p' (pw_password r) = Inr False) \<longrightarrow>
          validatePassword compare db' user p' = Inr False"
  proof (intro allI impI)
    fix p'
    assume a: "\<forall>r \<in> set (user_passwords db').
             pw_user_id r = u_id user \<longrightarrow> compare p' (pw_password r) = Inr False"
    from validatePassword_total [OF t] a
    show "validatePassword compare db' user p' = Inr False" by auto
  qed
  from c r o 1 2 show ?thesis by blast
qed

text \<open>
  Alice gets the password \<^verbatim>\<open>Tr0ub4dor\<close>: the call succeeds, the password is accepted
  and a wrong one is not.
\<close>

theorem createPassword_then_validatePassword_witness:
  "createPassword example_hash example_db alice ''Tr0ub4dor'' =
     Inr (insert_user_passwords example_db 1 ''$2b$12$Tr0ub4dor'') \<and>
   validatePassword example_compare
     (insert_user_passwords example_db 1 ''$2b$12$Tr0ub4dor'') alice ''Tr0ub4dor'' = Inr True \<and>
   validatePassword example_compare
     (insert_user_passwords example_db 1 ''$2b$12$Tr0ub4dor'') alice ''wrong'' = Inr False \<and>
   user_passwords (insert_user_passwords example_db 1 ''$2b$12$Tr0ub4dor'') =
     user_passwords example_db @ [\<lparr>pw_user_id = 1, pw_password = ''$2b$12$Tr0ub4dor''\<rparr>]"
proof -
  have h: "example_hash ''Tr0ub4dor'' 12 = Inr ''$2b$12$Tr0ub4dor''"
    by (simp add: example_hash_12)
  have m: "example_compare ''Tr0ub4dor'' ''$2b$12$Tr0ub4dor'' = Inr True"
    by (simp add: example_compare_def)
  have t: "\<forall>p h. \<exists>b. example_compare p h = Inr b"
    by (simp add: example_compare_def)
  from createPassword_then_validatePassword
      [where hash = example_hash and compare = example_compare and db = example_db
      and user = alice, OF h m t] obtain db' where
    c: "createPassword example_hash example_db alice ''Tr0ub4dor'' = Inr db'" and
    r: "user_passwords db' =
      user_passwords example_db @ [\<lparr>pw_user_id = u_id alice, pw_password = ''$2b$12$Tr0ub4dor''\<rparr>]" and
    v: "validatePassword example_compare db' alice ''Tr0ub4dor'' = Inr True" and
    f: "\<forall>p'. (\<forall>r \<in> set (user_passwords db').
             pw_user_id r = u_id alice \<longrightarrow> example_compare p' (pw_password r) = Inr False) \<longrightarrow>
          validatePassword example_compare db' alice p' = Inr False"
    by blast
  have e: "createPassword example_hash example_db alice ''Tr0ub4dor'' =
      Inr (insert_user_passwords example_db 1 ''$2b$12$Tr0ub4dor'')"
    by (simp add: createPassword_def example_hash_12 alice_def)
  with c have d: "db' = insert_user_passwords example_db 1 ''$2b$12$Tr0ub4dor''"
    by simp
  have w: "\<forall>r \<in> set (user_passwords db').
      pw_user_id r = u_id alice \<longrightarrow> example_compare ''wrong'' (pw_password r) = Inr False"
    unfolding r by (simp add: example_db_def example_compare_def)
  with f have n: "validatePassword example_compare db' alice ''wrong'' = Inr False"
    by blast
  from c r v n show ?thesis
    unfolding d by (simp add: alice_def)
qed

text \<open>
  Claim C4. \<open>createPassword\<close> looks at no stored row and removes none: whenever
  \<^verbatim>\<open>bcrypt.hash\<close> returns a hash for each of two plaintexts, the two calls for the same
  user succeed whatever the store holds, the table is then the old one with two rows
  appended, every password that was accepted before (for any user) is still accepted,
  and, provided \<^verbatim>\<open>bcrypt.compare\<close> accepts each plaintext against its hash and does
  not throw, both new passwords are accepted.
\<close>

theorem createPassword_accumulates:
  assumes h1: "hash p1 12 = Inr h1"
    and h2: "hash' p2 12 = Inr h2"
    and m1: "compare p1 h1 = Inr True"
    and m2: "compare p2 h2 = Inr True"
    and t: "\<forall>p h. \<exists>b. compare p h = Inr b"
  shows "\<exists>db1 db2. createPassword hash db user p1 = Inr db1 \<and>
    createPassword hash' db1 user p2 = Inr db2 \<and>
    user_passwords db2 =
      user_passwords db @ [\<lparr>pw_user_id = u_id user, pw_password = h1\<rparr>,
                           \<lparr>pw_user_id = u_id user, pw_password = h2\<rparr>] \<and>
    validatePassword compare db2 user p1 = Inr True \<and>
    validatePassword compare db2 user p2 = Inr True \<and>
    (\<forall>u p. validatePassword compare db u p = Inr True \<longrightarrow>
           validatePassword compare db2 u p = Inr True)"
proof -
  define db1 where "db1 = insert_user_passwords db (u_id user) h1"
  define db2 where "db2 = insert_user_passwords db1 (u_id user) h2"
  have c1: "createPassword hash db user p1 = Inr db1"
    unfolding db1_def using h1 by (rule createPassword_succeeds)
  have c2: "createPassword hash' db1 user p2 = Inr db2"
    unfolding db2_def using h2 by (rule createPassword_succeeds)
  have rows: "user_passwords db2 =
         user_passwords db @ [\<lparr>pw_user_id = u_id user, pw_password = h1\<rparr>,
                              \<lparr>pw_user_id = u_id user, pw_password = h2\<rparr>]"
    by (simp add: db1_def db2_def insert_user_passwords_def)
  have 1: "validatePassword compare db2 user p1 = Inr True"
    using m1 by (simp add: validatePassword_total [OF t] rows)
  have 2: "validatePassword compare db2 user p2 = Inr True"
    using m2 by (simp add: validatePassword_total [OF t] rows)
  have 3: "\<forall>u p. validatePassword compare db u p = Inr True \<longrightarrow>
           validatePassword compare db2 u p = Inr True"
    by (auto simp: validatePassword_total [OF t] rows)
  from c1 c2 rows 1 2 3 show ?thesis by blast
qed

text \<open>
  Alice gets the passwords \<^verbatim>\<open>P1\<close> and \<^verbatim>\<open>P2\<close>: both calls succeed, both passwords
  are accepted, and so is the password \<^verbatim>\<open>old\<close> she had before.
\<close>

theorem createPassword_accumulates_witness:
  "createPassword example_hash example_db alice ''P1'' =
     Inr (insert_user_passwords example_db 1 ''$2b$12$P1'') \<and>
   createPassword example_hash (insert_user_passwords example_db 1 ''$2b$12$P1'') alice ''P2'' =
     Inr (insert_user_passwords (insert_user_passwords example_db 1 ''$2b$12$P1'') 1
            ''$2b$12$P2'') \<and>
   validatePassword example_compare
     (insert_user_passwords (insert_user_passwords example_db 1 ''$2b$12$P1'') 1 ''$2b$12$P2'')
     alice ''P1'' = Inr True \<and>
   validatePassword example_compare
     (insert_user_passwords (insert_user_passwords example_db 1 ''$2b$12$P1'') 1 ''$2b$12$P2'')
     alice ''P2'' = Inr True \<and>
   validatePassword example_compare example_db alice ''old'' = Inr True \<and>
   validatePassword example_compare
     (insert_user_passwords (insert_user_passwords example_db 1 ''$2b$12$P1'') 1 ''$2b$12$P2'')
     alice ''old'' = Inr True"
proof -
  have h1: "example_hash ''P1'' 12 = Inr ''$2b$12$P1''"
    by (simp add: example_hash_12)
  have h2: "example_hash ''P2'' 12 = Inr ''$2b$12$P2''"
    by (simp add: example_hash_12)
  have m1: "example_compare ''P1'' ''$2b$12$P1'' = Inr True"
    by (simp add: example_compare_def)
  have m2: "example_compare ''P2'' ''$2b$12$P2'' = Inr True"
    by (simp add: example_compare_def)
  have t: "\<forall>p h. \<exists>b. example_compare p h = Inr b"
    by (simp add: example_compare_def)
  have o: "validatePassword example_compare example_db alice ''old'' = Inr True"
    by (simp add: validatePassword_hashes example_db_def alice_def example_compare_def
        toString_utf8_def)
  from createPassword_accumulates
      [where hash = example_hash and hash' = example_hash
      and compare = example_compare and db = example_db and user = alice,
      OF h1 h2 m1 m2 t] obtain db1 db2 where
    c1: "createPassword example_hash example_db alice ''P1'' = Inr db1" and
    c2: "createPassword example_hash db1 alice ''P2'' = Inr db2" and
    v1: "validatePassword example_compare db2 alice ''P1'' = Inr True" and
    v2: "validatePassword example_compare db2 alice ''P2'' = Inr True" and
    k: "\<forall>u p. validatePassword example_compare example_db u p = Inr True \<longrightarrow>
           validatePassword example_compare db2 u p = Inr True"
    by blast
  have "createPassword example_hash example_db alice ''P1'' =
      Inr (insert_user_passwords example_db 1 ''$2b$12$P1'')"
    by (simp add: createPassword_def example_hash_12 alice_def)
  with c1 have d1: "db1 = insert_user_passwords example_db 1 ''$2b$12$P1''"
    by simp
  have "createPassword example_hash db1 alice ''P2'' =
      Inr (insert_user_passwords db1 1 ''$2b$12$P2'')"
    by (simp add: createPassword_def example_hash_12 alice_def)
  with c2 have d2: "db2 = insert_user_passwords db1 1 ''$2b$12$P2''"
    by simp
  from k o have v3: "validatePassword example_compare db2 alice ''old'' = Inr True"
    by blast
  from c1 c2 v1 v2 o v3 show ?thesis
    unfolding d2 d1 by simp
qed

subsection \<open>TOTP\<close>

text \<open>
  Claim C7. For a user without a row in \<^verbatim>\<open>user_totp\<close>, \<open>validateTotp\<close> returns false
  for every token, whatever the library does. With the library as the spec describes
  it, \<open>validateTotp\<close> returns false, and so does not throw, for every token that is
  not a numeric code, whatever the store holds. It throws nothing of its own: an error
  can only be one that \<^verbatim>\<open>authenticator.check\<close> threw on the token and a stored secret
  of the user.
\<close>

theorem validateTotp_not_enabled_or_unparsable:
  "(filter (\<lambda>r. totp_user_id r = u_id user) (user_totp db) = [] \<longrightarrow>
      validateTotp check db user token = Inr False) \<and>
   (\<not> numeric_code token \<longrightarrow>
      validateTotp (authenticator_check code window step) db user token = Inr False) \<and>
   (\<forall>e. validateTotp check db user token = Inl e \<longrightarrow>
      (\<exists>r \<in> set (user_totp db). totp_user_id r = u_id user \<and>
         check token (totp_secret r) = Inl e))"
proof (intro conjI impI allI)
  assume "filter (\<lambda>r. totp_user_id r = u_id user) (user_totp db) = []"
  then show "validateTotp check db user token = Inr False"
    by (simp add: validateTotp_cases)
next
  assume "\<not> numeric_code token"
  then show "validateTotp (authenticator_check code window step) db user token = Inr False"
    by (simp add: validateTotp_cases authenticator_check_unparsable split: list.splits)
next
  fix e
  assume a: "validateTotp check db user token = Inl e"
  show "\<exists>r \<in> set (user_totp db). totp_user_id r = u_id user \<and>
         check token (totp_secret r) = Inl e"
  proof (cases "filter (\<lambda>r. totp_user_id r = u_id user) (user_totp db)")
    case Nil
    with a show ?thesis by (simp add: validateTotp_cases)
  next
    case (Cons r rest)
    then have "r \<in> set (filter (\<lambda>r. totp_user_id r = u_id user) (user_totp db))"
      by simp
    then have "r \<in> set (user_totp db)" "totp_user_id r = u_id user"
      by simp_all
    moreover from a Cons have "check token (totp_secret r) = Inl e"
      by (simp add: validateTotp_cases)
    ultimately show ?thesis by blast
  qed
qed

text \<open>
  Bob has no TOTP row in the sample store. Two tokens are no numeric codes: they are
  answered with false, also where Bob's only secret is the empty one, on which the
  sample derivation throws once a numeric token makes the library derive a code.
  Alice's token is accepted one time step late.
\<close>

theorem validateTotp_not_enabled_or_unparsable_witness:
  "validateTotp (authenticator_check example_code 1 56666666) example_db bob ''492039'' =
     Inr False \<and>
   validateTotp (authenticator_check example_code 1 56666666) example_db alice ''49 2O39'' =
     Inr False \<and>
   validateTotp (authenticator_check example_code 1 56666666) bob_empty_secret_db bob ''4x'' =
     Inr False \<and>
   validateTotp (authenticator_check example_code 1 56666666) bob_empty_secret_db bob ''492039'' =
     Inl (LibraryError ''empty secret'') \<and>
   validateTotp (authenticator_check example_code 1 56666666) example_db alice ''492039'' =
     Inr True"
proof -
  have n: "filter (\<lambda>r. totp_user_id r = u_id bob) (user_totp example_db) = []"
    by (simp add: example_db_def bob_def)
  have u1: "\<not> numeric_code ''49 2O39''"
    by (simp add: numeric_code_def)
  have u2: "\<not> numeric_code ''4x''"
    by (simp add: numeric_code_def)
  have w: "[56666666 - int 1 .. 56666666 + int 1] = [56666665, 56666666, 56666667]"
    by (simp add: upto.simps)
  have e: "validateTotp (authenticator_check example_code 1 56666666) bob_empty_secret_db bob
      ''492039'' = Inl (LibraryError ''empty secret'')"
    by (simp add: validateTotp_cases bob_empty_secret_db_def bob_def authenticator_check_def
        numeric_code_def w example_code_def)
  have a: "validateTotp (authenticator_check example_code 1 56666666) example_db alice
      ''492039'' = Inr True"
    by (simp add: validateTotp_cases example_db_def alice_def authenticator_check_def
        numeric_code_def w example_code_def)
  from validateTotp_not_enabled_or_unparsable
      [of bob example_db "authenticator_check example_code 1 56666666" "''492039''"] n
    validateTotp_not_enabled_or_unparsable [of alice example_db _ "''49 2O39''" example_code 1 56666666] u1
    validateTotp_not_enabled_or_unparsable [of bob bob_empty_secret_db _ "''4x''" example_code 1 56666666] u2
    e a
  show ?thesis by blast
qed

text \<open>
  Claim C9. When the user has several rows in \<^verbatim>\<open>user_totp\<close>, the answer of
  \<open>validateTotp\<close> is what the library says about the token and the secret of the
  first of them in store order; the rows after it can be replaced by any others
  without changing the answer.
\<close>

theorem validateTotp_first_row_only:
  assumes "user_totp db = pre @ r # post"
    and "\<forall>x \<in> set pre. totp_user_id x \<noteq> u_id user"
    and "totp_user_id r = u_id user"
  shows "validateTotp check db user token = check token (totp_secret r) \<and>
    validateTotp check (db\<lparr>user_totp := pre @ r # post'\<rparr>) user token =
      validateTotp check db user token"
proof -
  from assms(2) have "filter (\<lambda>x. totp_user_id x = u_id user) pre = []"
    by (simp add: filter_empty_conv)
  with assms(1,3) show ?thesis
    by (simp add: validateTotp_cases)
qed

text \<open>
  Alice's first row holds the secret of token 492039 and her second row the secret of
  token 771204: only the first token is accepted. Carol's second row has the empty
  secret the sample check throws on: it is never looked at.
\<close>

theorem validateTotp_first_row_only_witness:
  "validateTotp example_check example_db alice ''492039'' = Inr True \<and>
   validateTotp example_check example_db alice ''771204'' = Inr False \<and>
   validateTotp example_check example_db carol ''000001'' = Inr True \<and>
   validateTotp example_check
     (example_db\<lparr>user_totp :=
        [\<lparr>totp_user_id = 3, totp_secret = ''CAROLSECRET''\<rparr>] @
        \<lparr>totp_user_id = 1, totp_secret = ''ALICESECRET''\<rparr> # []\<rparr>) alice ''771204'' = Inr False"
proof -
  have a: "user_totp example_db =
      [\<lparr>totp_user_id = 3, totp_secret = ''CAROLSECRET''\<rparr>] @
      \<lparr>totp_user_id = 1, totp_secret = ''ALICESECRET''\<rparr> #
      [\<lparr>totp_user_id = 1, totp_secret = ''OTHERSECRET''\<rparr>,
       \<lparr>totp_user_id = 3, totp_secret = []\<rparr>]"
    by (simp add: example_db_def)
  have a2: "\<forall>x \<in> set [\<lparr>totp_user_id = 3, totp_secret = ''CAROLSECRET''\<rparr>].
      totp_user_id x \<noteq> u_id alice"
    by (simp add: alice_def)
  have a3: "totp_user_id \<lparr>totp_user_id = 1, totp_secret = ''ALICESECRET''\<rparr> = u_id alice"
    by (simp add: alice_def)
  have c: "user_totp example_db =
      [] @ \<lparr>totp_user_id = 3, totp_secret = ''CAROLSECRET''\<rparr> #
      [\<lparr>totp_user_id = 1, totp_secret = ''ALICESECRET''\<rparr>,
       \<lparr>totp_user_id = 1, totp_secret = ''OTHERSECRET''\<rparr>,
       \<lparr>totp_user_id = 3, totp_secret = []\<rparr>]"
    by (simp add: example_db_def)
  have c2: "\<forall>x \<in> set []. totp_user_id x \<noteq> u_id carol"
    by simp
  have c3: "totp_user_id \<lparr>totp_user_id = 3, totp_secret = ''CAROLSECRET''\<rparr> = u_id carol"
    by (simp add: carol_def)
  from validateTotp_first_row_only [OF a a2 a3, of example_check "''492039''" "[]"]
    validateTotp_first_row_only [OF a a2 a3, of example_check "''771204''" "[]"]
    validateTotp_first_row_only [OF c c2 c3, of example_check "''000001''" "[]"]
  show ?thesis by (simp add: example_check_def)
qed

subsection \<open>What a verification depends on\<close>

text \<open>
  Claim C8. Two users with the same id get the same answer from \<open>validatePassword\<close>
  and from \<open>validateTotp\<close> for the same candidate and the same store, whatever their
  identity, nickname, \<^verbatim>\<open>created\<close> and \<^verbatim>\<open>type\<close> are.
\<close>

theorem validation_depends_on_id_only:
  "u_id user1 = u_id user2 \<Longrightarrow>
     validatePassword compare db user1 pass = validatePassword compare db user2 pass \<and>
     validateTotp check db user1 token = validateTotp check db user2 token"
  by (simp add: validatePassword_def validateTotp_def)

theorem validation_depends_on_id_only_witness:
  "u_id alice = u_id alice_renamed \<and> alice \<noteq> alice_renamed \<and>
   validatePassword example_compare example_db alice_renamed ''Secr3t'' =
     validatePassword example_compare example_db alice ''Secr3t'' \<and>
   validatePassword example_compare example_db alice ''Secr3t'' = Inr True \<and>
   validateTotp example_check example_db alice_renamed ''492039'' =
     validateTotp example_check example_db alice ''492039'' \<and>
   validateTotp example_check example_db alice ''492039'' = Inr True"
proof -
  have i: "u_id alice = u_id alice_renamed"
    by (simp add: alice_def alice_renamed_def)
  have d: "alice \<noteq> alice_renamed"
    by (simp add: alice_def alice_renamed_def)
  have p: "validatePassword example_compare example_db alice ''Secr3t'' = Inr True"
    by (simp add: validatePassword_hashes example_db_def alice_def example_compare_def
        toString_utf8_def)
  have t: "validateTotp example_check example_db alice ''492039'' = Inr True"
    by (simp add: validateTotp_cases example_db_def alice_def example_check_def)
  from validation_depends_on_id_only
    [OF i, of example_compare example_db "''Secr3t''" example_check "''492039''"]
  have e1: "validatePassword example_compare example_db alice_renamed ''Secr3t'' =
      validatePassword example_compare example_db alice ''Secr3t''"
    and e2: "validateTotp example_check example_db alice_renamed ''492039'' =
      validateTotp example_check example_db alice ''492039''"
    by simp_all
  show ?thesis
    by (rule conjI [OF i conjI [OF d conjI [OF e1 conjI [OF p conjI [OF e2 t]]]]])
qed

subsection \<open>The users the lookups return\<close>

text \<open>
  Claim C10. \<open>findAll\<close> returns, for the active rows in store order, the users made
  of the row's id, identity, nickname and type and of \<^verbatim>\<open>created\<close> times 1000
  (seconds to milliseconds); a user \<open>findById\<close> or \<open>findByIdentity\<close> returns is made
  in the same way of an active row that matches the key. A \<open>User\<close> has these five
  fields and no other, and the value of a row's \<^verbatim>\<open>active\<close> column is not in it.
\<close>

theorem found_users_created_in_milliseconds:
  "findAll db =
     map (\<lambda>r. \<lparr>u_id = row_id r, u_identity = row_identity r, u_nickname = row_nickname r,
               u_created = Some (row_created r * 1000), u_type = row_type r\<rparr>)
       (filter (\<lambda>r. row_active r = 1) (users db)) \<and>
   (\<forall>u. findById db i = Inr u \<longrightarrow>
      (\<exists>r \<in> set (users db). row_active r = 1 \<and> row_id r = i \<and>
         u = \<lparr>u_id = row_id r, u_identity = row_identity r, u_nickname = row_nickname r,
              u_created = Some (row_created r * 1000), u_type = row_type r\<rparr>)) \<and>
   (\<forall>u. findByIdentity collate db ident = Inr u \<longrightarrow>
      (\<exists>r \<in> set (users db). row_active r = 1 \<and> collate (row_identity r) ident \<and>
         u = \<lparr>u_id = row_id r, u_identity = row_identity r, u_nickname = row_nickname r,
              u_created = Some (row_created r * 1000), u_type = row_type r\<rparr>)) \<and>
   (\<forall>r a. recordToModel (fieldNames (r\<lparr>row_active := a\<rparr>)) = recordToModel (fieldNames r))"
proof (intro conjI allI impI)
  show "findAll db =
     map (\<lambda>r. \<lparr>u_id = row_id r, u_identity = row_identity r, u_nickname = row_nickname r,
               u_created = Some (row_created r * 1000), u_type = row_type r\<rparr>)
       (filter (\<lambda>r. row_active r = 1) (users db))"
    by (simp add: findAll_map select_users_active_def comp_def recordToModel_fieldNames)
next
  fix u
  assume a: "findById db i = Inr u"
  have "\<exists>r. filter (\<lambda>r. row_active r = 1 \<and> row_id r = i) (users db) = [r] \<and>
      u = recordToModel (fieldNames r)"
  proof (cases "filter (\<lambda>r. row_active r = 1 \<and> row_id r = i) (users db)")
    case Nil
    with a show ?thesis by (simp add: findById_cases)
  next
    case (Cons r rest)
    with a show ?thesis by (cases rest) (simp_all add: findById_cases)
  qed
  then obtain r where r: "filter (\<lambda>r. row_active r = 1 \<and> row_id r = i) (users db) = [r]"
    and u: "u = recordToModel (fieldNames r)"
    by blast
  from r have "r \<in> set (filter (\<lambda>r. row_active r = 1 \<and> row_id r = i) (users db))"
    by simp
  then have "r \<in> set (users db)" "row_active r = 1" "row_id r = i"
    by simp_all
  with u show "\<exists>r \<in> set (users db). row_active r = 1 \<and> row_id r = i \<and>
         u = \<lparr>u_id = row_id r, u_identity = row_identity r, u_nickname = row_nickname r,
              u_created = Some (row_created r * 1000), u_type = row_type r\<rparr>"
    unfolding recordToModel_fieldNames by blast
next
  fix u
  assume a: "findByIdentity collate db ident = Inr u"
  have "\<exists>r. filter (\<lambda>r. row_active r = 1 \<and> collate (row_identity r) ident) (users db) = [r] \<and>
      u = recordToModel (fieldNames r)"
  proof (cases "filter (\<lambda>r. row_active r = 1 \<and> collate (row_identity r) ident) (users db)")
    case Nil
    with a show ?thesis by (simp add: findByIdentity_cases)
  next
    case (Cons r rest)
    with a show ?thesis by (cases rest) (simp_all add: findByIdentity_cases)
  qed
  then obtain r where
    r: "filter (\<lambda>r. row_active r = 1 \<and> collate (row_identity r) ident) (users db) = [r]"
    and u: "u = recordToModel (fieldNames r)"
    by blast
  from r have
    "r \<in> set (filter (\<lambda>r. row_active r = 1 \<and> collate (row_identity r) ident) (users db))"
    by simp
  then have "r \<in> set (users db)" "row_active r = 1" "collate (row_identity r) ident"
    by simp_all
  with u show "\<exists>r \<in> set (users db). row_active r = 1 \<and> collate (row_identity r) ident \<and>
         u = \<lparr>u_id = row_id r, u_identity = row_identity r, u_nickname = row_nickname r,
              u_created = Some (row_created r * 1000), u_type = row_type r\<rparr>"
    unfolding recordToModel_fieldNames by blast
next
  fix r :: users_row and a
  show "recordToModel (fieldNames (r\<lparr>row_active := a\<rparr>)) = recordToModel (fieldNames r)"
    by (simp add: recordToModel_fieldNames)
qed

text \<open>
  The sample store: three active rows, in order; Alice, stored with second 1600000000,
  is returned with that many thousand milliseconds.
\<close>

theorem found_users_created_in_milliseconds_witness:
  "findAll example_db =
     [alice, carol,
      \<lparr>u_id = 3, u_identity = ''carol@example.com'', u_nickname = ''Caz'',
       u_created = Some 1600000300000, u_type = 1\<rparr>] \<and>
   findById example_db 1 = Inr alice \<and>
   u_created alice = Some (1600000000 * 1000) \<and>
   findByIdentity (=) example_db ''alice@example.com'' = Inr alice \<and>
   (\<exists>r \<in> set (users example_db). row_active r = 1 \<and> row_id r = 1 \<and>
      alice = \<lparr>u_id = row_id r, u_identity = row_identity r, u_nickname = row_nickname r,
               u_created = Some (row_created r * 1000), u_type = row_type r\<rparr>)"
proof -
  have i: "findById example_db 1 = Inr alice"
    by (simp add: findById_cases example_db_def recordToModel_fieldNames alice_def)
  have j: "findByIdentity (=) example_db ''alice@example.com'' = Inr alice"
    by (simp add: findByIdentity_cases example_db_def recordToModel_fieldNames alice_def)
  have f: "filter (\<lambda>r. row_active r = 1) (users example_db) =
      [users example_db ! 0, users example_db ! 2, users example_db ! 3]"
    by (simp add: example_db_def)
  note inst = found_users_created_in_milliseconds [of example_db 1 "(=)" "''alice@example.com''"]
  from inst have "findAll example_db =
     map (\<lambda>r. \<lparr>u_id = row_id r, u_identity = row_identity r, u_nickname = row_nickname r,
               u_created = Some (row_created r * 1000), u_type = row_type r\<rparr>)
       (filter (\<lambda>r. row_active r = 1) (users example_db))"
    by (rule conjunct1)
  then have a: "findAll example_db =
     [alice, carol,
      \<lparr>u_id = 3, u_identity = ''carol@example.com'', u_nickname = ''Caz'',
       u_created = Some 1600000300000, u_type = 1\<rparr>]"
    unfolding f by (simp add: example_db_def alice_def carol_def)
  have c: "u_created alice = Some (1600000000 * 1000)"
    by (simp add: alice_def)
  from inst i have e: "\<exists>r \<in> set (users example_db). row_active r = 1 \<and> row_id r = 1 \<and>
      alice = \<lparr>u_id = row_id r, u_identity = row_identity r, u_nickname = row_nickname r,
               u_created = Some (row_created r * 1000), u_type = row_type r\<rparr>"
    by blast
  show ?thesis
    by (rule conjI [OF a conjI [OF i conjI [OF c conjI [OF j e]]]])
qed

end
